theory Spec2Isabelle
  imports Main
begin

section \<open>The accessibility backend as the handlers see it\<close>

text \<open>
  The handlers of \<^verbatim>\<open>linuxtry.py\<close> talk to AT-SPI through duck-typed objects.
  Every call on such an object either returns or raises; an exception is a value
  carrying the text that \<^verbatim>\<open>str(e)\<close> gives.  A capture is modelled on a snapshot of
  the backend: asking the same object the same question twice gives the same answer.
\<close>

datatype exception = Exception (str: string)

text \<open>
  The three capability interfaces.  \<^verbatim>\<open>getText(0, -1)\<close> returns a string or
  \<^verbatim>\<open>None\<close>; \<open>currentValue\<close> stands for \<^verbatim>\<open>str(val_iface.currentValue)\<close>, the only
  way the code looks at the scalar; positions and sizes are pairs, and a reply that
  does not unpack into two components is a raised \<^verbatim>\<open>ValueError\<close>.
\<close>

datatype text_iface = TextIface (getText: "exception + string option")

datatype value_iface = ValueIface (currentValue: "exception + string")

datatype component = Component
  (getPosition: "exception + int \<times> int")
  (getSize: "exception + int \<times> int")

text \<open>
  An accessible object.  A query returns \<open>Inr None\<close> when it hands back a falsy
  handle (the code tests \<^verbatim>\<open>if text_iface:\<close>).  Iterating the object yields
  \<open>iter_children\<close> in order and then either stops (\<open>iter_fault = None\<close>) or raises;
  an object that is not iterable at all yields nothing and raises.
\<close>

datatype accessible = Accessible
  (getRoleName: "exception + string")
  (name: "exception + string option")
  (queryText: "exception + text_iface option")
  (queryValue: "exception + value_iface option")
  (queryComponent: "exception + component option")
  (iter_children: "accessible list")
  (iter_fault: "exception option")

section \<open>LinuxUIElement\<close>

datatype ui_element = UIElement
  (role: string)
  (title: string)
  (elem_value: string)
  (elem_x: int)
  (elem_y: int)
  (width: int)
  (height: int)
  (children: "ui_element list")

text \<open>Lines 18-21: the role, or the empty string when the read raises.\<close>

definition read_role :: "accessible \<Rightarrow> string" where
  "read_role a = (case getRoleName a of Inr r \<Rightarrow> r | Inl _ \<Rightarrow> [])"

text \<open>Lines 23-26: \<^verbatim>\<open>accessible.name or ''\<close>.\<close>

definition read_title :: "accessible \<Rightarrow> string" where
  "read_title a =
     (case name a of
        Inr (Some n) \<Rightarrow> n
      | Inr None \<Rightarrow> []
      | Inl _ \<Rightarrow> [])"

text \<open>
  Lines 36-41, the handler of the outer \<^verbatim>\<open>try\<close>: reached with \<open>self.value\<close>
  still empty; the inner handler falls back to the title already stored.
\<close>

definition read_value_iface :: "accessible \<Rightarrow> string \<Rightarrow> string" where
  "read_value_iface a ttl =
     (case queryValue a of
        Inl _ \<Rightarrow> ttl
      | Inr None \<Rightarrow> []
      | Inr (Some val_iface) \<Rightarrow>
          (case currentValue val_iface of
             Inl _ \<Rightarrow> ttl
           | Inr v \<Rightarrow> v))"

text \<open>Lines 28-41: \<open>self.value\<close>, given the title stored just before.\<close>

definition read_value :: "accessible \<Rightarrow> string \<Rightarrow> string" where
  "read_value a ttl =
     (case queryText a of
        Inl _ \<Rightarrow> read_value_iface a ttl
      | Inr None \<Rightarrow> []
      | Inr (Some text_iface) \<Rightarrow>
          (case getText text_iface of
             Inl _ \<Rightarrow> read_value_iface a ttl
           | Inr None \<Rightarrow> []
           | Inr (Some t) \<Rightarrow> t))"

text \<open>
  Lines 44-53: the bounding box \<open>(x, y, width, height)\<close>.  The four fields start at
  zero; the position is stored before the size is asked for.
\<close>

definition read_geometry :: "accessible \<Rightarrow> int \<times> int \<times> int \<times> int" where
  "read_geometry a =
     (case queryComponent a of
        Inl _ \<Rightarrow> (0, 0, 0, 0)
      | Inr None \<Rightarrow> (0, 0, 0, 0)
      | Inr (Some cmp) \<Rightarrow>
          (case getPosition cmp of
             Inl _ \<Rightarrow> (0, 0, 0, 0)
           | Inr (px, py) \<Rightarrow>
               (case getSize cmp of
                  Inl _ \<Rightarrow> (px, py, 0, 0)
                | Inr (w, h) \<Rightarrow> (px, py, w, h))))"

text \<open>
  Lines 58-64, the body of the loop over the children: \<open>ctor\<close> is the call
  \<^verbatim>\<open>LinuxUIElement(child)\<close>, which the loop guards with its own \<^verbatim>\<open>try\<close>; a child
  whose construction raises is skipped and the loop goes on.
\<close>

fun append_children :: "('a \<Rightarrow> exception + 'e) \<Rightarrow> 'a list \<Rightarrow> 'e list \<Rightarrow> 'e list" where
  "append_children ctor [] acc = acc"
| "append_children ctor (child # rest) acc =
     (case ctor child of
        Inr child_elem \<Rightarrow> append_children ctor rest (acc @ [child_elem])
      | Inl _ \<Rightarrow> append_children ctor rest acc)"

text \<open>
  Lines 56-67: \<open>self.children\<close>.  When the iteration itself raises, the handler of
  the outer \<^verbatim>\<open>try\<close> keeps what was appended before.
\<close>

definition build_children ::
  "('a \<Rightarrow> exception + 'e) \<Rightarrow> 'a list \<Rightarrow> exception option \<Rightarrow> 'e list" where
  "build_children ctor yielded fault =
     (case fault of
        None \<Rightarrow> append_children ctor yielded []
      | Some _ \<Rightarrow> append_children ctor yielded [])"

lemma append_children_cong [fundef_cong]:
  "xs = ys \<Longrightarrow> acc = acc' \<Longrightarrow> (\<And>x. x \<in> set ys \<Longrightarrow> f x = g x)
   \<Longrightarrow> append_children f xs acc = append_children g ys acc'"
proof (induction ys arbitrary: xs acc acc')
  case Nil
  then show ?case by simp
next
  case (Cons y ys)
  then show ?case by (auto split: sum.splits)
qed

lemma build_children_cong [fundef_cong]:
  "xs = ys \<Longrightarrow> flt = flt' \<Longrightarrow> (\<And>x. x \<in> set ys \<Longrightarrow> f x = g x)
   \<Longrightarrow> build_children f xs flt = build_children g ys flt'"
  unfolding build_children_def
  by (auto split: option.splits intro: append_children_cong)

text \<open>
  The interpreter bounds the depth of nested calls: a call that would exceed the bound
  raises \<^verbatim>\<open>RecursionError\<close>, which is an \<^verbatim>\<open>Exception\<close>.
\<close>

definition RecursionError :: exception where
  "RecursionError = Exception ''maximum recursion depth exceeded''"

text \<open>
  The constructor, lines 17-67, once its call has been entered; \<open>room\<close> is the number
  of further nested constructor calls that the recursion bound leaves.  Every read the
  constructor makes sits in a \<^verbatim>\<open>try\<close> of its own (a read that runs out of stack
  raises like any other failing read, and is an \<open>Inl\<close> reply of the object), so a
  call that was entered returns.  The nested call \<^verbatim>\<open>LinuxUIElement(child)\<close> of line 60
  is entered when there is room for it and raises \<^verbatim>\<open>RecursionError\<close> otherwise; the
  handler of lines 62-64 then skips the child.
\<close>

fun LinuxUIElement :: "nat \<Rightarrow> accessible \<Rightarrow> ui_element" where
  "LinuxUIElement room (Accessible rn nm qt qv qc kids flt) =
     (let a = Accessible rn nm qt qv qc kids flt;
          ttl = read_title a;
          (px, py, w, h) = read_geometry a
      in UIElement (read_role a) ttl (read_value a ttl) px py w h
           (build_children
              (\<lambda>child. case room of
                         0 \<Rightarrow> Inl RecursionError
                       | Suc less_room \<Rightarrow> Inr (LinuxUIElement less_room child))
              kids flt))"

text \<open>
  Lines 69-82: the serialised tree, a dictionary with the same eight keys.  The
  recursion of \<open>to_dict\<close>, like that of \<open>contains_value\<close> below, runs over an element
  that was built and is no deeper than the construction was, so it returns.
\<close>

datatype window_dict = WindowDict
  (d_role: string)
  (d_title: string)
  (d_value: string)
  (d_x: int)
  (d_y: int)
  (d_width: int)
  (d_height: int)
  (d_children: "window_dict list")

fun to_dict :: "ui_element \<Rightarrow> window_dict" where
  "to_dict (UIElement r t v px py w h kids) = WindowDict r t v px py w h (map to_dict kids)"

section \<open>Python strings\<close>

text \<open>
  A string is a list of code points below 256.  \<open>lower\<close> is \<^verbatim>\<open>str.lower\<close> there:
  the letters A-Z and the Latin-1 capitals (all of 192-222 but the multiplication sign)
  move up by 32.  \<open>isspace\<close> is the whitespace that \<^verbatim>\<open>split\<close> and \<^verbatim>\<open>strip\<close> use,
  \<open>islinebreak\<close> the line boundaries of \<^verbatim>\<open>splitlines\<close>.
\<close>

definition lower_char :: "char \<Rightarrow> char" where
  "lower_char c =
     (let n = (of_char c :: nat)
      in if (65 \<le> n \<and> n \<le> 90) \<or> (192 \<le> n \<and> n \<le> 222 \<and> n \<noteq> 215)
         then char_of (n + 32) else c)"

definition lower :: "string \<Rightarrow> string" where
  "lower s = map lower_char s"

definition isspace :: "char \<Rightarrow> bool" where
  "isspace c =
     (let n = (of_char c :: nat)
      in (9 \<le> n \<and> n \<le> 13) \<or> (28 \<le> n \<and> n \<le> 32) \<or> n = 133 \<or> n = 160)"

definition islinebreak :: "char \<Rightarrow> bool" where
  "islinebreak c =
     (let n = (of_char c :: nat)
      in (10 \<le> n \<and> n \<le> 13) \<or> (28 \<le> n \<and> n \<le> 30) \<or> n = 133)"

text \<open>\<^verbatim>\<open>s.startswith(q)\<close> and the substring test \<^verbatim>\<open>q in s\<close>.\<close>

fun startswith :: "string \<Rightarrow> string \<Rightarrow> bool" where
  "startswith s [] = True"
| "startswith [] (q # qs) = False"
| "startswith (c # cs) (q # qs) = (c = q \<and> startswith cs qs)"

fun py_in :: "string \<Rightarrow> string \<Rightarrow> bool" where
  "py_in q [] = (q = [])"
| "py_in q (c # cs) = (startswith (c # cs) q \<or> py_in q cs)"

text \<open>
  \<^verbatim>\<open>s.split(None, maxsplit)\<close>: skip whitespace, take a field, at most \<open>maxsplit\<close>
  times; what is left after that, without its leading whitespace, is the last part
  when it is not empty.
\<close>

fun split_whitespace :: "string \<Rightarrow> nat \<Rightarrow> string list" where
  "split_whitespace s 0 =
     (let r = dropWhile isspace s in if r = [] then [] else [r])"
| "split_whitespace s (Suc maxcount) =
     (let r = dropWhile isspace s
      in if r = [] then []
         else takeWhile (\<lambda>c. \<not> isspace c) r
              # split_whitespace (dropWhile (\<lambda>c. \<not> isspace c) r) maxcount)"

definition strip :: "string \<Rightarrow> string" where
  "strip s = rev (dropWhile isspace (rev (dropWhile isspace s)))"

text \<open>
  \<^verbatim>\<open>s.splitlines()\<close>: \<open>cur\<close> is the line read so far.  A carriage return followed
  by a line feed is one boundary; a boundary at the very end opens no further line.
\<close>

fun splitlines_from :: "string \<Rightarrow> string \<Rightarrow> string list" where
  "splitlines_from cur [] = (if cur = [] then [] else [cur])"
| "splitlines_from cur [c] =
     (if islinebreak c then [cur] else [cur @ [c]])"
| "splitlines_from cur (c # d # ds) =
     (if islinebreak c
      then (if c = CHR 0x0D \<and> d = CHR 0x0A
            then cur # splitlines_from [] ds
            else cur # splitlines_from [] (d # ds))
      else splitlines_from (cur @ [c]) (d # ds))"

definition splitlines :: "string \<Rightarrow> string list" where
  "splitlines s = splitlines_from [] s"

section \<open>Searching a tree for a value\<close>

text \<open>
  Lines 84-97.  The query is \<^verbatim>\<open>None\<close> or a string; \<open>contains_value_children\<close> is
  the loop over \<open>self.children\<close>, which returns at the first child that contains the
  value.
\<close>

fun contains_value :: "ui_element \<Rightarrow> string option \<Rightarrow> bool"
  and contains_value_children :: "ui_element list \<Rightarrow> string option \<Rightarrow> bool" where
  "contains_value (UIElement r t v px py w h kids) search_value =
     (case search_value of
        None \<Rightarrow> False
      | Some q \<Rightarrow>
          if v \<noteq> [] \<and> py_in (lower q) (lower v) then True
          else if t \<noteq> [] \<and> py_in (lower q) (lower t) then True
          else contains_value_children kids search_value)"
| "contains_value_children [] search_value = False"
| "contains_value_children (child # rest) search_value =
     (if contains_value child search_value then True
      else contains_value_children rest search_value)"


section \<open>The desktop and the window-manager command\<close>

text \<open>
  The desktop root and the applications are asked for \<^verbatim>\<open>childCount\<close> and
  \<^verbatim>\<open>getChildAtIndex(i)\<close> only; either may raise (an application slot holding
  \<^verbatim>\<open>None\<close> raises on \<^verbatim>\<open>childCount\<close>).  The environment of a handler call is the
  reply of \<^verbatim>\<open>pyatspi.Registry.getDesktop(0)\<close> and the reply of
  \<^verbatim>\<open>subprocess.check_output(['wmctrl', '-l'], text=True)\<close>, which raises when the
  command is missing or exits with failure.  A handler calls the constructor for a
  top-level window from the bottom of its task's stack, where the call is entered;
  \<open>stack_room\<close> is the number of nested constructor calls that fit above it.
\<close>

datatype application = Application
  (app_childCount: "exception + int")
  (app_getChildAtIndex: "nat \<Rightarrow> exception + accessible")

datatype desktop = Desktop
  (childCount: "exception + int")
  (getChildAtIndex: "nat \<Rightarrow> exception + application")

record environment =
  getDesktop :: "exception + desktop"
  wmctrl :: "exception + string"
  stack_room :: nat

text \<open>
  What a handler returns: \<^verbatim>\<open>{"success": True, "windows": ...}\<close>,
  \<^verbatim>\<open>{"success": True, "window": ...}\<close> or \<^verbatim>\<open>{"success": False, "error": ...}\<close>.
\<close>

datatype result =
    Windows "window_dict list"
  | Window window_dict
  | Failure string

fun success :: "result \<Rightarrow> bool" where
  "success (Windows ws) = True"
| "success (Window w) = True"
| "success (Failure msg) = False"

text \<open>\<^verbatim>\<open>result.get("windows", [])\<close>.\<close>

fun get_windows_key :: "result \<Rightarrow> window_dict list" where
  "get_windows_key (Windows ws) = ws"
| "get_windows_key (Window w) = []"
| "get_windows_key (Failure msg) = []"

section \<open>get_windows\<close>

text \<open>Lines 116-120: the lower-cased role of a top-level child, empty when the read raises.\<close>

definition top_level_role :: "accessible \<Rightarrow> string" where
  "top_level_role window_obj =
     (case getRoleName window_obj of Inr r \<Rightarrow> lower r | Inl _ \<Rightarrow> [])"

definition window_like :: "accessible \<Rightarrow> bool" where
  "window_like window_obj =
     (top_level_role window_obj \<in> set [''frame'', ''window'', ''dialog''])"

text \<open>
  Lines 114-125, the loop over \<open>j\<close>.  \<^verbatim>\<open>app.getChildAtIndex(j)\<close> stands outside the
  inner \<^verbatim>\<open>try\<close> blocks, so its exception leaves the loop.  The constructor call
  for a top-level window is entered and returns, so the element is always appended.
\<close>

fun scan_application ::
  "nat \<Rightarrow> application \<Rightarrow> nat list \<Rightarrow> window_dict list \<Rightarrow> exception + window_dict list" where
  "scan_application room app [] windows = Inr windows"
| "scan_application room app (j # js) windows =
     (case app_getChildAtIndex app j of
        Inl e \<Rightarrow> Inl e
      | Inr window_obj \<Rightarrow>
          if window_like window_obj
          then scan_application room app js
                 (windows @ [to_dict (LinuxUIElement room window_obj)])
          else scan_application room app js windows)"

text \<open>Lines 112-125, the loop over \<open>i\<close>.\<close>

fun scan_desktop ::
  "nat \<Rightarrow> desktop \<Rightarrow> nat list \<Rightarrow> window_dict list \<Rightarrow> exception + window_dict list" where
  "scan_desktop room dsk [] windows = Inr windows"
| "scan_desktop room dsk (i # is) windows =
     (case getChildAtIndex dsk i of
        Inl e \<Rightarrow> Inl e
      | Inr app \<Rightarrow>
          (case app_childCount app of
             Inl e \<Rightarrow> Inl e
           | Inr n \<Rightarrow>
               (case scan_application room app [0..<nat n] windows of
                  Inl e \<Rightarrow> Inl e
                | Inr windows' \<Rightarrow> scan_desktop room dsk is windows')))"

text \<open>Lines 110-125: the walk over AT-SPI, the primary capture.\<close>

definition primary_capture :: "environment \<Rightarrow> exception + window_dict list" where
  "primary_capture env =
     (case getDesktop env of
        Inl e \<Rightarrow> Inl e
      | Inr dsk \<Rightarrow>
          (case childCount dsk of
             Inl e \<Rightarrow> Inl e
           | Inr n \<Rightarrow> scan_desktop (stack_room env) dsk [0..<nat n] []))"

text \<open>
  Lines 130-136, the loop over the lines of the listing.  Unpacking \<open>parts\<close> into
  four names raises when there are more than four; the handler at line 137 then keeps
  the stubs appended so far.
\<close>

fun parse_wmctrl_lines :: "string list \<Rightarrow> window_dict list \<Rightarrow> window_dict list" where
  "parse_wmctrl_lines [] windows = windows"
| "parse_wmctrl_lines (line # rest) windows =
     (let parts = split_whitespace line 3
      in if length parts \<ge> 4
         then (case parts of
                 [_, _, _, ttl] \<Rightarrow>
                   parse_wmctrl_lines rest
                     (windows @ [WindowDict ''window'' (strip ttl) [] 0 0 0 0 []])
               | _ \<Rightarrow> windows)
         else parse_wmctrl_lines rest windows)"

text \<open>Lines 126-139: the fallback, entered with \<open>windows\<close> empty.\<close>

definition wmctrl_fallback :: "environment \<Rightarrow> window_dict list \<Rightarrow> window_dict list" where
  "wmctrl_fallback env windows =
     (case wmctrl env of
        Inl _ \<Rightarrow> windows
      | Inr wm_output \<Rightarrow> parse_wmctrl_lines (splitlines wm_output) windows)"

text \<open>
  Lines 104-142.  The handler's second component counts the runs of the listing
  command: \<open>calls\<close> before the call, the count after it in the result.
\<close>

definition get_windows :: "environment \<Rightarrow> nat \<Rightarrow> result \<times> nat" where
  "get_windows env calls =
     (case primary_capture env of
        Inl e \<Rightarrow> (Failure (str e), calls)
      | Inr windows \<Rightarrow>
          if windows = []
          then (Windows (wmctrl_fallback env windows), Suc calls)
          else (Windows windows, calls))"

section \<open>The three searches\<close>

text \<open>Lines 152-154, the loop of \<open>find_window_by_title\<close>, which returns at the first hit.\<close>

fun first_with_title :: "string \<Rightarrow> window_dict list \<Rightarrow> window_dict option" where
  "first_with_title q [] = None"
| "first_with_title q (win # rest) =
     (if py_in (lower q) (lower (d_title win)) then Some win
      else first_with_title q rest)"

text \<open>Lines 144-157.\<close>

definition find_window_by_title :: "environment \<Rightarrow> string \<Rightarrow> nat \<Rightarrow> result \<times> nat" where
  "find_window_by_title env q calls =
     (let (res, calls') = get_windows env calls
      in if \<not> success res then (res, calls')
         else (case first_with_title q (get_windows_key res) of
                 Some win \<Rightarrow> (Window win, calls')
               | None \<Rightarrow>
                   (Failure (''No window with title containing '' @ [CHR 0x27] @ q
                             @ [CHR 0x27] @ '' found''), calls')))"

text \<open>Lines 159-173.\<close>

definition find_window_by_role :: "environment \<Rightarrow> string \<Rightarrow> nat \<Rightarrow> result \<times> nat" where
  "find_window_by_role env q calls =
     (let (res, calls') = get_windows env calls
      in if \<not> success res then (res, calls')
         else (let matches = filter (\<lambda>w. lower (d_role w) = lower q) (get_windows_key res)
               in if matches \<noteq> [] then (Windows matches, calls')
                  else (Failure (''No windows with role '' @ [CHR 0x27] @ q
                                 @ [CHR 0x27] @ '' found''), calls')))"

text \<open>
  Lines 183-192, the loop over \<open>j\<close> of \<open>find_window_by_value\<close>: \<open>Inr (Some e)\<close> is
  the \<^verbatim>\<open>return\<close> at line 192, \<open>Inr None\<close> the end of the loop.
\<close>

fun search_application ::
  "nat \<Rightarrow> application \<Rightarrow> nat list \<Rightarrow> string option \<Rightarrow> exception + ui_element option" where
  "search_application room app [] search_value = Inr None"
| "search_application room app (j # js) search_value =
     (case app_getChildAtIndex app j of
        Inl e \<Rightarrow> Inl e
      | Inr window_obj \<Rightarrow>
          if window_like window_obj
          then (let ui_elem = LinuxUIElement room window_obj
                in if contains_value ui_elem search_value then Inr (Some ui_elem)
                   else search_application room app js search_value)
          else search_application room app js search_value)"

text \<open>Lines 181-192, the loop over \<open>i\<close>.\<close>

fun search_desktop ::
  "nat \<Rightarrow> desktop \<Rightarrow> nat list \<Rightarrow> string option \<Rightarrow> exception + ui_element option" where
  "search_desktop room dsk [] search_value = Inr None"
| "search_desktop room dsk (i # is) search_value =
     (case getChildAtIndex dsk i of
        Inl e \<Rightarrow> Inl e
      | Inr app \<Rightarrow>
          (case app_childCount app of
             Inl e \<Rightarrow> Inl e
           | Inr n \<Rightarrow>
               (case search_application room app [0..<nat n] search_value of
                  Inl e \<Rightarrow> Inl e
                | Inr (Some ui_elem) \<Rightarrow> Inr (Some ui_elem)
                | Inr None \<Rightarrow> search_desktop room dsk is search_value)))"

text \<open>\<^verbatim>\<open>f"{value}"\<close>: the text of the query inside the message.\<close>

fun format_value :: "string option \<Rightarrow> string" where
  "format_value None = ''None''"
| "format_value (Some q) = q"

text \<open>Lines 175-195.  The listing command is never run here.\<close>

definition find_window_by_value ::
  "environment \<Rightarrow> string option \<Rightarrow> nat \<Rightarrow> result \<times> nat" where
  "find_window_by_value env search_value calls =
     (case getDesktop env of
        Inl e \<Rightarrow> (Failure (str e), calls)
      | Inr dsk \<Rightarrow>
          (case childCount dsk of
             Inl e \<Rightarrow> (Failure (str e), calls)
           | Inr n \<Rightarrow>
               (case search_desktop (stack_room env) dsk [0..<nat n] search_value of
                  Inl e \<Rightarrow> (Failure (str e), calls)
                | Inr (Some ui_elem) \<Rightarrow> (Window (to_dict ui_elem), calls)
                | Inr None \<Rightarrow>
                    (Failure (''No window with value '' @ [CHR 0x27]
                              @ format_value search_value @ [CHR 0x27] @ '' found''),
                     calls))))"

section \<open>Notions of the specification\<close>

text \<open>The bounding box of an element: \<open>(x, y, width, height)\<close>.\<close>

definition bounding_box :: "ui_element \<Rightarrow> int \<times> int \<times> int \<times> int" where
  "bounding_box el = (elem_x el, elem_y el, width el, height el)"

text \<open>
  Geometry is unavailable when the component query raises or gives no handle, or when
  one of the two reads on the handle raises.
\<close>

definition geometry_unavailable :: "accessible \<Rightarrow> bool" where
  "geometry_unavailable a =
     (case queryComponent a of
        Inl _ \<Rightarrow> True
      | Inr None \<Rightarrow> True
      | Inr (Some cmp) \<Rightarrow> isl (getPosition cmp) \<or> isl (getSize cmp))"

text \<open>
  The text-content interface is available when the query returns a handle and the
  handle gives its text; likewise the scalar-value interface.
\<close>

definition text_content :: "accessible \<Rightarrow> string option" where
  "text_content a =
     (case queryText a of
        Inr (Some text_iface) \<Rightarrow>
          (case getText text_iface of
             Inr (Some t) \<Rightarrow> Some t
           | Inr None \<Rightarrow> Some []
           | Inl _ \<Rightarrow> None)
      | Inr None \<Rightarrow> None
      | Inl _ \<Rightarrow> None)"

definition scalar_content :: "accessible \<Rightarrow> string option" where
  "scalar_content a =
     (case queryValue a of
        Inr (Some val_iface) \<Rightarrow>
          (case currentValue val_iface of Inr v \<Rightarrow> Some v | Inl _ \<Rightarrow> None)
      | Inr None \<Rightarrow> None
      | Inl _ \<Rightarrow> None)"

text \<open>The priority chain in the specification's words: text, else scalar, else title.\<close>

definition value_by_priority :: "accessible \<Rightarrow> string" where
  "value_by_priority a =
     (case text_content a of
        Some t \<Rightarrow> t
      | None \<Rightarrow>
          (case scalar_content a of
             Some v \<Rightarrow> v
           | None \<Rightarrow> read_title a))"

text \<open>
  What one child contributes to its parent: itself when it was constructed, nothing
  otherwise.
\<close>

definition constructed :: "('a \<Rightarrow> exception + 'e) \<Rightarrow> 'a \<Rightarrow> 'e list" where
  "constructed ctor child = (case ctor child of Inr el \<Rightarrow> [el] | Inl _ \<Rightarrow> [])"

text \<open>
  Case-insensitive containment: the lower-cased query occurs in the lower-cased text.
\<close>

definition contains_ignoring_case :: "string \<Rightarrow> string \<Rightarrow> bool" where
  "contains_ignoring_case q s = (\<exists>p r. lower s = p @ lower q @ r)"

text \<open>A node matches a query by its own value or its own title, an empty field matching nothing.\<close>

definition own_match :: "string \<Rightarrow> ui_element \<Rightarrow> bool" where
  "own_match q el =
     ((elem_value el \<noteq> [] \<and> contains_ignoring_case q (elem_value el))
      \<or> (title el \<noteq> [] \<and> contains_ignoring_case q (title el)))"




text \<open>
  The top-level windows in enumeration order.  \<open>all_or_first_fault\<close> runs replies in
  order and stops at the first that raised; the windows of an application are its
  window-like children, the windows of the desktop those of its applications, in
  order.  The result is \<open>Inl\<close> exactly when one of the enumeration calls raises.
\<close>

fun all_or_first_fault :: "(exception + 'a) list \<Rightarrow> exception + 'a list" where
  "all_or_first_fault [] = Inr []"
| "all_or_first_fault (Inl e # rs) = Inl e"
| "all_or_first_fault (Inr x # rs) =
     (case all_or_first_fault rs of Inl e \<Rightarrow> Inl e | Inr xs \<Rightarrow> Inr (x # xs))"

definition application_windows :: "application \<Rightarrow> exception + accessible list" where
  "application_windows app =
     (case app_childCount app of
        Inl e \<Rightarrow> Inl e
      | Inr n \<Rightarrow>
          (case all_or_first_fault (map (app_getChildAtIndex app) [0..<nat n]) of
             Inl e \<Rightarrow> Inl e
           | Inr kids \<Rightarrow> Inr (filter window_like kids)))"

definition windows_of_slot :: "desktop \<Rightarrow> nat \<Rightarrow> exception + accessible list" where
  "windows_of_slot dsk i =
     (case getChildAtIndex dsk i of
        Inl e \<Rightarrow> Inl e
      | Inr app \<Rightarrow> application_windows app)"

definition top_level_windows :: "environment \<Rightarrow> exception + accessible list" where
  "top_level_windows env =
     (case getDesktop env of
        Inl e \<Rightarrow> Inl e
      | Inr dsk \<Rightarrow>
          (case childCount dsk of
             Inl e \<Rightarrow> Inl e
           | Inr n \<Rightarrow>
               (case all_or_first_fault (map (windows_of_slot dsk) [0..<nat n]) of
                  Inl e \<Rightarrow> Inl e
                | Inr wss \<Rightarrow> Inr (concat wss))))"

text \<open>The window tree that a capture makes of a top-level object.\<close>

definition window_dict_of :: "nat \<Rightarrow> accessible \<Rightarrow> window_dict" where
  "window_dict_of room w = to_dict (LinuxUIElement room w)"

text \<open>
  What can raise while the windows are enumerated: obtaining the desktop root, reading
  its child count, fetching an application, reading the application's child count,
  fetching one of its children.
\<close>

definition application_raises :: "application \<Rightarrow> bool" where
  "application_raises app =
     (case app_childCount app of
        Inl _ \<Rightarrow> True
      | Inr n \<Rightarrow> list_ex (\<lambda>j. isl (app_getChildAtIndex app j)) [0..<nat n])"

definition slot_raises :: "desktop \<Rightarrow> nat \<Rightarrow> bool" where
  "slot_raises dsk i =
     (case getChildAtIndex dsk i of
        Inl _ \<Rightarrow> True
      | Inr app \<Rightarrow> application_raises app)"

definition enumeration_raises :: "environment \<Rightarrow> bool" where
  "enumeration_raises env =
     (case getDesktop env of
        Inl _ \<Rightarrow> True
      | Inr dsk \<Rightarrow>
          (case childCount dsk of
             Inl _ \<Rightarrow> True
           | Inr n \<Rightarrow> list_ex (slot_raises dsk) [0..<nat n]))"

text \<open>
  The fields of a line of the listing.  \<open>lstrip\<close> drops leading whitespace,
  \<open>skip_field\<close> drops leading whitespace and the field after it,
  \<open>rest_after_fields n\<close> is what is left of a line after its first \<open>n\<close> fields, and
  \<open>whitespace_fields\<close> are all the whitespace-delimited fields of a line, as
  \<^verbatim>\<open>line.split()\<close> gives them.
\<close>

definition lstrip :: "string \<Rightarrow> string" where
  "lstrip s = dropWhile isspace s"

definition skip_field :: "string \<Rightarrow> string" where
  "skip_field s = dropWhile (\<lambda>c. \<not> isspace c) (dropWhile isspace s)"

fun rest_after_fields :: "nat \<Rightarrow> string \<Rightarrow> string" where
  "rest_after_fields 0 s = s"
| "rest_after_fields (Suc n) s = rest_after_fields n (skip_field s)"

function whitespace_fields :: "string \<Rightarrow> string list" where
  "whitespace_fields s =
     (let r = dropWhile isspace s
      in if r = [] then []
         else takeWhile (\<lambda>c. \<not> isspace c) r # whitespace_fields (dropWhile (\<lambda>c. \<not> isspace c) r))"
  by pat_completeness auto
termination
proof (relation "measure length")
  show "wf (measure length)" by simp
next
  fix s r :: string
  assume r: "r = dropWhile isspace s" and ne: "r \<noteq> []"
  from ne obtain c cs where rc: "r = c # cs" by (cases r) auto
  have "dropWhile isspace s = c # cs" using r rc by simp
  then have "\<not> isspace c" by (simp add: dropWhile_eq_Cons_conv)
  then have "length (dropWhile (\<lambda>c. \<not> isspace c) r) \<le> length cs"
    by (simp add: rc length_dropWhile_le)
  moreover have "length r \<le> length s" by (simp add: r length_dropWhile_le)
  ultimately show "(dropWhile (\<lambda>c. \<not> isspace c) r, s) \<in> measure length"
    by (simp add: rc)
qed

text \<open>The last part of a split that stopped after \<open>n\<close> fields, when there is one.\<close>

definition last_part :: "nat \<Rightarrow> string \<Rightarrow> string list" where
  "last_part n s =
     (if lstrip (rest_after_fields n s) = [] then []
      else [lstrip (rest_after_fields n s)])"

text \<open>The stub of a listing line: the title is the rest after three fields, stripped.\<close>

definition window_stub :: "string \<Rightarrow> window_dict" where
  "window_stub line = WindowDict ''window'' (strip (rest_after_fields 3 line)) [] 0 0 0 0 []"

section \<open>Concrete backends\<close>

text \<open>A slider whose text query hands back a falsy handle, and one whose text query raises.\<close>

definition falsy_text_handle :: accessible where
  "falsy_text_handle =
     Accessible (Inr ''slider'') (Inr (Some ''Volume'')) (Inr None)
       (Inr (Some (ValueIface (Inr ''5.0'')))) (Inl (Exception ''no component'')) [] None"

definition text_raises_scalar_given :: accessible where
  "text_raises_scalar_given =
     Accessible (Inr ''slider'') (Inr (Some ''Volume'')) (Inl (Exception ''no text''))
       (Inr (Some (ValueIface (Inr ''5.0'')))) (Inl (Exception ''no component'')) [] None"

text \<open>A frame that reports its position and then raises on its size.\<close>

definition size_read_raises :: accessible where
  "size_read_raises =
     Accessible (Inr ''frame'') (Inr (Some ''Editor'')) (Inl (Exception ''no text''))
       (Inl (Exception ''no value''))
       (Inr (Some (Component (Inr (10, 20)) (Inl (Exception ''defunct''))))) [] None"

text \<open>A constructor that raises on the child numbered 2.\<close>

definition picky_ctor :: "nat \<Rightarrow> exception + nat" where
  "picky_ctor n = (if n = 2 then Inl (Exception ''defunct'') else Inr (10 * n))"

text \<open>Two frames: Files, and Terminal with a text child holding \<open>a Needle\<close>.\<close>

definition files_window :: accessible where
  "files_window =
     Accessible (Inr ''frame'') (Inr (Some ''Files'')) (Inl (Exception ''no text''))
       (Inl (Exception ''no value'')) (Inl (Exception ''no component'')) [] None"

definition terminal_window :: accessible where
  "terminal_window =
     Accessible (Inr ''frame'') (Inr (Some ''Terminal'')) (Inl (Exception ''no text''))
       (Inl (Exception ''no value'')) (Inl (Exception ''no component''))
       [Accessible (Inr ''text'') (Inr None) (Inr (Some (TextIface (Inr (Some ''a Needle'')))))
          (Inl (Exception ''no value'')) (Inl (Exception ''no component'')) [] None]
       None"

text \<open>A desktop of two applications with one frame each; the listing command is missing.\<close>

definition two_windows :: environment where
  "two_windows =
     \<lparr>getDesktop = Inr (Desktop (Inr 2)
        (\<lambda>i. if i = 0 then Inr (Application (Inr 1) (\<lambda>j. Inr files_window))
             else Inr (Application (Inr 1) (\<lambda>j. Inr terminal_window)))),
      wmctrl = Inl (Exception ''wmctrl: not found''),
      stack_room = 900\<rparr>"




text \<open>A desktop whose only application slot raises on \<open>childCount\<close>.\<close>

definition dead_application_slot :: environment where
  "dead_application_slot =
     \<lparr>getDesktop = Inr (Desktop (Inr 1)
        (\<lambda>i. Inr (Application (Inl (Exception ''no childCount'')) (\<lambda>j. Inr files_window)))),
      wmctrl = Inl (Exception ''wmctrl: not found''),
      stack_room = 900\<rparr>"

text \<open>Desktops without applications, with four different replies of the listing command.\<close>

definition empty_desktop :: environment where
  "empty_desktop =
     \<lparr>getDesktop = Inr (Desktop (Inr 0) (\<lambda>i. Inl (Exception ''no such child''))),
      wmctrl = Inr ''0x01 0 host MyApp'',
      stack_room = 900\<rparr>"

definition listed_desktop :: environment where
  "listed_desktop =
     \<lparr>getDesktop = Inr (Desktop (Inr 0) (\<lambda>i. Inl (Exception ''no such child''))),
      wmctrl = Inr (''0x01  0 host  My App  '' @ [CHR 0x0A] @ ''0x02 0 host'' @ [CHR 0x0A]
                    @ ''0x03 -1 host Term'' @ [CHR 0x0A]),
      stack_room = 900\<rparr>"

definition unlisted_desktop :: environment where
  "unlisted_desktop =
     \<lparr>getDesktop = Inr (Desktop (Inr 0) (\<lambda>i. Inl (Exception ''no such child''))),
      wmctrl = Inr (''0x02 0 host'' @ [CHR 0x0A, CHR 0x0A] @ ''Cannot open display.''),
      stack_room = 900\<rparr>"

definition no_wmctrl_desktop :: environment where
  "no_wmctrl_desktop =
     \<lparr>getDesktop = Inr (Desktop (Inr 0) (\<lambda>i. Inl (Exception ''no such child''))),
      wmctrl = Inl (Exception ''No such file or directory: wmctrl''),
      stack_room = 900\<rparr>"

section \<open>The constructor\<close>

lemma LinuxUIElement_unfold:
  "LinuxUIElement room a =
     (case read_geometry a of
        (px, py, w, h) \<Rightarrow>
          UIElement (read_role a) (read_title a) (read_value a (read_title a)) px py w h
            (build_children
               (\<lambda>child. case room of
                          0 \<Rightarrow> Inl RecursionError
                        | Suc less_room \<Rightarrow> Inr (LinuxUIElement less_room child))
               (iter_children a) (iter_fault a)))"
  by (cases a) (simp add: Let_def)

declare LinuxUIElement.simps [simp del]

lemma LinuxUIElement_role: "role (LinuxUIElement room a) = read_role a"
  by (subst LinuxUIElement_unfold) (simp split: prod.splits)

lemma LinuxUIElement_title: "title (LinuxUIElement room a) = read_title a"
  by (subst LinuxUIElement_unfold) (simp split: prod.splits)

lemma LinuxUIElement_value:
  "elem_value (LinuxUIElement room a) = read_value a (read_title a)"
  by (subst LinuxUIElement_unfold) (simp split: prod.splits)

lemma LinuxUIElement_box: "bounding_box (LinuxUIElement room a) = read_geometry a"
  by (subst LinuxUIElement_unfold) (simp add: bounding_box_def split: prod.splits)

lemma LinuxUIElement_children:
  "children (LinuxUIElement room a) =
     build_children
       (\<lambda>child. case room of
                  0 \<Rightarrow> Inl RecursionError
                | Suc less_room \<Rightarrow> Inr (LinuxUIElement less_room child))
       (iter_children a) (iter_fault a)"
  by (subst LinuxUIElement_unfold) (simp split: prod.splits)

lemma append_children_eq:
  "append_children ctor xs acc = acc @ concat (map (constructed ctor) xs)"
  by (induction xs arbitrary: acc) (auto simp: constructed_def split: sum.splits)

lemma build_children_eq:
  "build_children ctor xs flt = concat (map (constructed ctor) xs)"
  by (simp add: build_children_def append_children_eq split: option.splits)

lemma constructed_total: "concat (map (constructed (\<lambda>child. Inr (f child))) xs) = map f xs"
  by (induction xs) (simp_all add: constructed_def)

lemma iteration_fault_ignored:
  "LinuxUIElement room (Accessible rn nm qt qv qc kids (Some e))
     = LinuxUIElement room (Accessible rn nm qt qv qc kids None)"
proof -
  have "read_value (Accessible rn nm qt qv qc kids (Some e)) t
      = read_value (Accessible rn nm qt qv qc kids None) t" for t
    by (simp add: read_value_def read_value_iface_def split: sum.splits option.splits)
  then show ?thesis
    by (simp add: LinuxUIElement_unfold [of room "Accessible rn nm qt qv qc kids (Some e)"]
          LinuxUIElement_unfold [of room "Accessible rn nm qt qv qc kids None"]
          read_role_def read_title_def read_geometry_def build_children_def)
qed

lemma constructed_none: "concat (map (constructed (\<lambda>child. Inl e)) xs) = []"
  by (induction xs) (simp_all add: constructed_def)

lemma children_with_room:
  "children (LinuxUIElement (Suc room) a) = map (LinuxUIElement room) (iter_children a)"
  by (simp add: LinuxUIElement_children build_children_eq constructed_total)

lemma children_without_room: "children (LinuxUIElement 0 a) = []"
  by (simp add: LinuxUIElement_children build_children_eq constructed_none)

text \<open>
  C5, as amended.  Replacing one read of an object by a raise changes the attribute
  of that read only: the role becomes empty, the title becomes empty (and the value,
  where it falls back to the title, is resolved against the empty title), the value
  becomes the title when both interface queries raise, and the bounding box becomes
  all zero when the component query raises.  The box is also all zero when the query
  gives no handle or the position read raises; when the position was read and the
  size read raises, \<open>x\<close> and \<open>y\<close> hold the position and width and height are zero.
\<close>

theorem attribute_reads_isolated:
  fixes room rn nm qt qv qc kids flt
  defines "el \<equiv> LinuxUIElement room (Accessible rn nm qt qv qc kids flt)"
  shows
  "(let el' = LinuxUIElement room (Accessible (Inl e) nm qt qv qc kids flt)
    in role el' = [] \<and> title el' = title el \<and> elem_value el' = elem_value el
       \<and> bounding_box el' = bounding_box el)
   \<and> (let el' = LinuxUIElement room (Accessible rn (Inl e) qt qv qc kids flt)
    in title el' = [] \<and> role el' = role el \<and> bounding_box el' = bounding_box el
       \<and> elem_value el' = read_value (Accessible rn nm qt qv qc kids flt) [])
   \<and> (let el' = LinuxUIElement room (Accessible rn nm (Inl e) (Inl e') qc kids flt)
    in elem_value el' = title el \<and> role el' = role el \<and> title el' = title el
       \<and> bounding_box el' = bounding_box el)
   \<and> (let el' = LinuxUIElement room (Accessible rn nm qt qv (Inl e) kids flt)
    in bounding_box el' = (0, 0, 0, 0) \<and> role el' = role el \<and> title el' = title el
       \<and> elem_value el' = elem_value el)
   \<and> bounding_box (LinuxUIElement room (Accessible rn nm qt qv (Inr None) kids flt))
       = (0, 0, 0, 0)
   \<and> bounding_box (LinuxUIElement room
         (Accessible rn nm qt qv (Inr (Some (Component (Inl e) sz))) kids flt))
       = (0, 0, 0, 0)
   \<and> bounding_box (LinuxUIElement room
         (Accessible rn nm qt qv (Inr (Some (Component (Inr (px, py)) (Inl e)))) kids flt))
       = (px, py, 0, 0)
   \<and> bounding_box (LinuxUIElement room
         (Accessible rn nm qt qv (Inr (Some (Component (Inr (px, py)) (Inr (w, h))))) kids flt))
       = (px, py, w, h)"
  unfolding el_def Let_def
  by (simp add: LinuxUIElement_role LinuxUIElement_title LinuxUIElement_value
        LinuxUIElement_box read_role_def read_title_def read_value_def
        read_value_iface_def read_geometry_def split: sum.splits option.splits)

text \<open>
  The theorem of C5 at a frame titled Editor: with the role read raising the role is
  empty and the title stays; with the size read raising the box is \<open>(10, 20, 0, 0)\<close>.
\<close>

theorem attribute_reads_isolated_witness:
  "role (LinuxUIElement 900 (Accessible (Inl (Exception ''gone'')) (Inr (Some ''Editor''))
      (Inl (Exception ''no text'')) (Inl (Exception ''no value''))
      (Inr (Some (Component (Inr (10, 20)) (Inr (300, 200))))) [] None)) = []
   \<and> title (LinuxUIElement 900 (Accessible (Inl (Exception ''gone'')) (Inr (Some ''Editor''))
      (Inl (Exception ''no text'')) (Inl (Exception ''no value''))
      (Inr (Some (Component (Inr (10, 20)) (Inr (300, 200))))) [] None)) = ''Editor''
   \<and> bounding_box (LinuxUIElement 900 (Accessible (Inr ''frame'') (Inr (Some ''Editor''))
      (Inl (Exception ''no text'')) (Inl (Exception ''no value''))
      (Inr (Some (Component (Inr (10, 20)) (Inl (Exception ''gone''))))) [] None))
     = (10, 20, 0, 0)"
  using attribute_reads_isolated
    [where room = 900 and e = "Exception ''gone''" and rn = "Inr ''frame''"
       and nm = "Inr (Some ''Editor'')" and qt = "Inl (Exception ''no text'')"
       and qv = "Inl (Exception ''no value'')"
       and qc = "Inr (Some (Component (Inr (10, 20)) (Inr (300, 200))))"
       and kids = "[]" and flt = None and px = 10 and py = 20]
  by (simp add: Let_def LinuxUIElement_title read_title_def)

text \<open>
  C5 as stated fails: the size read of this frame raises, so its geometry is
  unavailable, and yet the element keeps the position that was read before.
\<close>

theorem partial_bounding_box_counterexample:
  "geometry_unavailable size_read_raises
   \<and> bounding_box (LinuxUIElement 900 size_read_raises) \<noteq> (0, 0, 0, 0)
   \<and> bounding_box (LinuxUIElement 900 size_read_raises) = (10, 20, 0, 0)"
  by (simp add: size_read_raises_def geometry_unavailable_def LinuxUIElement_box
        read_geometry_def)

text \<open>
  C6.  In the loop over the children, a child whose construction raises contributes
  nothing, and the children before and after it are built as if it were not there; a
  child that is constructed stands between them.  Whether the iteration ends or
  raises makes no difference to what was appended: an iteration that raises at once
  leaves no children, and the element of an object whose iteration raises is the
  element of the same object with the iteration ending where it raised.  In this
  program the nested constructor call raises only when the recursion bound leaves no
  room for it: with room, an element has one child for each object its iteration
  yielded, in order; without room every child is skipped, and the parent is still
  returned, childless.
\<close>

theorem failed_child_omitted_siblings_kept:
  "(ctor child = Inl e \<longrightarrow>
      build_children ctor (before @ child # after) flt =
        build_children ctor before None @ build_children ctor after None)
   \<and> (ctor child = Inr el \<longrightarrow>
      build_children ctor (before @ child # after) flt =
        build_children ctor before None @ el # build_children ctor after None)
   \<and> build_children ctor [] flt = []
   \<and> LinuxUIElement room (Accessible rn nm qt qv qc kids (Some e))
       = LinuxUIElement room (Accessible rn nm qt qv qc kids None)
   \<and> children (LinuxUIElement (Suc room) a) = map (LinuxUIElement room) (iter_children a)
   \<and> children (LinuxUIElement 0 a) = []"
  by (simp add: build_children_eq constructed_def children_with_room children_without_room
        iteration_fault_ignored)

text \<open>
  The theorem of C6 at three children of which the second fails, the iteration
  raising at the end, and at the Terminal frame with room for one nested call and
  with none.
\<close>

theorem failed_child_omitted_siblings_kept_witness:
  "picky_ctor 2 = Inl (Exception ''defunct'')
   \<and> picky_ctor 1 = Inr 10
   \<and> build_children picky_ctor [1, 2, 3] (Some (Exception ''gone'')) = [10, 30]
   \<and> build_children picky_ctor [1] None = [10]
   \<and> build_children picky_ctor [3] None = [30]
   \<and> build_children picky_ctor [2, 3] None = [30]
   \<and> children (LinuxUIElement 1 terminal_window)
       = [UIElement ''text'' [] ''a Needle'' 0 0 0 0 []]
   \<and> children (LinuxUIElement 0 terminal_window) = []"
proof -
  have k: "map (LinuxUIElement 0) (iter_children terminal_window)
      = [UIElement ''text'' [] ''a Needle'' 0 0 0 0 []]"
    by code_simp
  show ?thesis
    using failed_child_omitted_siblings_kept
      [where ctor = picky_ctor and child = 2 and e = "Exception ''defunct''"
         and before = "[1]" and after = "[3]" and flt = "Some (Exception ''gone'')"
         and a = terminal_window and room = 0]
      failed_child_omitted_siblings_kept
      [where ctor = picky_ctor and child = 1 and el = 10 and before = "[]"
         and after = "[2, 3]" and flt = "Some (Exception ''gone'')"]
    by (simp add: picky_ctor_def build_children_def k)
qed

text \<open>
  C7, as amended.  The value is the text when the text interface is available, else
  the scalar when the scalar interface is available, else the title, provided an
  interface that is not available says so by raising.  When the text query returns a
  falsy handle, or the text is unavailable and the scalar query returns a falsy
  handle, the value is the empty string and nothing further is tried.
\<close>

theorem value_resolution:
  "elem_value (LinuxUIElement room a) =
     (if queryText a = Inr None then []
      else if text_content a = None \<and> queryValue a = Inr None then []
      else value_by_priority a)"
  by (auto simp: LinuxUIElement_value read_value_def read_value_iface_def value_by_priority_def
        text_content_def scalar_content_def split: sum.splits option.splits)

text \<open>The theorem of C7 at a slider whose text query raises, and at one whose text query gives a falsy handle.\<close>

theorem value_resolution_witness:
  "elem_value (LinuxUIElement 900 text_raises_scalar_given) = ''5.0''
   \<and> elem_value (LinuxUIElement 900 falsy_text_handle) = []"
  using value_resolution [of 900 text_raises_scalar_given]
    value_resolution [of 900 falsy_text_handle]
  by (simp add: text_raises_scalar_given_def falsy_text_handle_def text_content_def
        scalar_content_def value_by_priority_def)

text \<open>
  C7 as stated fails: the text interface of this slider is not available (the query
  gave a falsy handle), its scalar interface is, with current value 5.0, and the
  element's value is empty.
\<close>

theorem value_resolution_counterexample:
  "text_content falsy_text_handle = None
   \<and> scalar_content falsy_text_handle = Some ''5.0''
   \<and> value_by_priority falsy_text_handle = ''5.0''
   \<and> elem_value (LinuxUIElement 900 falsy_text_handle) = []"
  by (simp add: falsy_text_handle_def text_content_def scalar_content_def
        value_by_priority_def LinuxUIElement_value read_value_def)

section \<open>Substrings and the search of a tree\<close>

lemma startswith_iff: "startswith s q \<longleftrightarrow> (\<exists>r. s = q @ r)"
  by (induction s q rule: startswith.induct) auto

lemma py_in_iff: "py_in q s \<longleftrightarrow> (\<exists>p r. s = p @ q @ r)"
proof (induction s)
  case Nil
  then show ?case by auto
next
  case (Cons c cs)
  show ?case
  proof
    assume "py_in q (c # cs)"
    then consider "startswith (c # cs) q" | "py_in q cs" by auto
    then show "\<exists>p r. c # cs = p @ q @ r"
    proof cases
      case 1
      then obtain r where "c # cs = q @ r" by (auto simp: startswith_iff)
      then have "c # cs = [] @ q @ r" by simp
      then show ?thesis by blast
    next
      case 2
      then obtain p r where "cs = p @ q @ r" using Cons.IH by auto
      then have "c # cs = (c # p) @ q @ r" by simp
      then show ?thesis by blast
    qed
  next
    assume "\<exists>p r. c # cs = p @ q @ r"
    then obtain p r where pr: "c # cs = p @ q @ r" by auto
    show "py_in q (c # cs)"
    proof (cases p)
      case Nil
      with pr have "startswith (c # cs) q" by (auto simp: startswith_iff)
      then show ?thesis by simp
    next
      case (Cons a p')
      with pr have "cs = p' @ q @ r" by simp
      then have "py_in q cs" using Cons.IH by auto
      then show ?thesis by simp
    qed
  qed
qed

lemma py_in_lower: "py_in (lower q) (lower s) = contains_ignoring_case q s"
  by (simp add: py_in_iff contains_ignoring_case_def)

lemma contains_value_None:
  "contains_value el None = False" "contains_value_children els None = False"
  by (induction el "None :: string option" and els "None :: string option"
      rule: contains_value_contains_value_children.induct) auto


lemma contains_value_children_iff:
  "contains_value_children els sv = (\<exists>c\<in>set els. contains_value c sv)"
  by (induction els) auto











section \<open>The enumeration of the top-level windows\<close>

lemma scan_application_eq:
  "scan_application room app js ws =
     (case all_or_first_fault (map (app_getChildAtIndex app) js) of
        Inl e \<Rightarrow> Inl e
      | Inr kids \<Rightarrow> Inr (ws @ map (window_dict_of room) (filter window_like kids)))"
proof (induction js arbitrary: ws)
  case Nil
  then show ?case by simp
next
  case (Cons j js)
  show ?case
  proof (cases "app_getChildAtIndex app j")
    case (Inl e)
    then show ?thesis by simp
  next
    case (Inr w)
    then show ?thesis
      by (simp add: Cons.IH window_dict_of_def split: sum.splits)
  qed
qed

lemma scan_application_count:
  "app_childCount app = Inr n \<Longrightarrow>
   scan_application room app [0..<nat n] ws =
     (case application_windows app of
        Inl e \<Rightarrow> Inl e
      | Inr kids \<Rightarrow> Inr (ws @ map (window_dict_of room) kids))"
  by (simp add: scan_application_eq application_windows_def split: sum.splits)

lemma scan_desktop_eq:
  "scan_desktop room dsk is ws =
     (case all_or_first_fault (map (windows_of_slot dsk) is) of
        Inl e \<Rightarrow> Inl e
      | Inr wss \<Rightarrow> Inr (ws @ map (window_dict_of room) (concat wss)))"
proof (induction "is" arbitrary: ws)
  case Nil
  then show ?case by simp
next
  case (Cons i "is")
  show ?case
  proof (cases "getChildAtIndex dsk i")
    case (Inl e)
    then show ?thesis by (simp add: windows_of_slot_def)
  next
    case app: (Inr app)
    show ?thesis
    proof (cases "app_childCount app")
      case (Inl e)
      with app show ?thesis by (simp add: windows_of_slot_def application_windows_def)
    next
      case (Inr n)
      with app show ?thesis
        by (simp add: windows_of_slot_def scan_application_count Cons.IH
              split: sum.splits)
    qed
  qed
qed

lemma primary_capture_eq:
  "primary_capture env =
     (case top_level_windows env of
        Inl e \<Rightarrow> Inl e
      | Inr ws \<Rightarrow> Inr (map (window_dict_of (stack_room env)) ws))"
  by (simp add: primary_capture_def top_level_windows_def scan_desktop_eq
        split: sum.splits)

lemma isl_all_or_first_fault: "isl (all_or_first_fault rs) = list_ex isl rs"
  by (induction rs rule: all_or_first_fault.induct) (auto split: sum.splits)

lemma isl_case_Inr: "isl (case r of Inl e \<Rightarrow> Inl e | Inr x \<Rightarrow> Inr (f x)) = isl r"
  by (cases r) auto

lemma isl_application_windows: "isl (application_windows app) = application_raises app"
  by (cases "app_childCount app")
     (simp_all add: application_windows_def application_raises_def isl_case_Inr
        isl_all_or_first_fault list_ex_iff)

lemma isl_windows_of_slot: "isl (windows_of_slot dsk i) = slot_raises dsk i"
  by (cases "getChildAtIndex dsk i")
     (simp_all add: windows_of_slot_def slot_raises_def isl_application_windows)

lemma isl_top_level_windows: "isl (top_level_windows env) = enumeration_raises env"
proof (cases "getDesktop env")
  case (Inl e)
  then show ?thesis by (simp add: top_level_windows_def enumeration_raises_def)
next
  case (Inr dsk)
  then show ?thesis
    by (cases "childCount dsk")
       (simp_all add: top_level_windows_def enumeration_raises_def isl_case_Inr
          isl_all_or_first_fault list_ex_iff isl_windows_of_slot)
qed

lemma get_windows_eq:
  "get_windows env calls =
     (case top_level_windows env of
        Inl e \<Rightarrow> (Failure (str e), calls)
      | Inr ws \<Rightarrow>
          if ws = [] then (Windows (wmctrl_fallback env []), Suc calls)
          else (Windows (map (window_dict_of (stack_room env)) ws), calls))"
  by (simp add: get_windows_def primary_capture_eq split: sum.splits)






lemma search_application_None:
  "search_application room app js None \<noteq> Inr (Some el)"
  by (induction js) (auto simp: contains_value_None Let_def split: sum.splits)

lemma search_desktop_None:
  "search_desktop room dsk is None \<noteq> Inr (Some el)"
  by (induction "is") (auto simp: search_application_None split: sum.splits option.splits)

lemma first_with_title_find:
  "first_with_title q ws = find (\<lambda>w. contains_ignoring_case q (d_title w)) ws"
  by (induction ws) (simp_all add: py_in_lower)

text \<open>The concrete desktops, evaluated.\<close>

lemma two_windows_top_level:
  "top_level_windows two_windows = Inr [files_window, terminal_window]"
  by code_simp

lemma two_windows_get_windows:
  "fst (get_windows two_windows 0)
     = Windows [WindowDict ''frame'' ''Files'' ''Files'' 0 0 0 0 [],
                WindowDict ''frame'' ''Terminal'' ''Terminal'' 0 0 0 0
                  [WindowDict ''text'' [] ''a Needle'' 0 0 0 0 []]]"
  by code_simp

lemma empty_desktop_top_level: "top_level_windows empty_desktop = Inr []"
  by code_simp

section \<open>Failures of get_windows\<close>

text \<open>
  C1, as amended.  \<open>get_windows\<close> reports \<open>success: false\<close> exactly when a call of
  the enumeration raises: obtaining the desktop root, reading the desktop's child
  count, fetching an application, reading an application's child count, or fetching a
  top-level child.  A raise while reading a child's role or while building its
  element is not among them and never surfaces.
\<close>

theorem get_windows_fails_iff_enumeration_raises:
  "success (fst (get_windows env calls)) = (\<not> enumeration_raises env)"
  by (simp add: get_windows_eq isl_top_level_windows [symmetric] split: sum.splits)

text \<open>
  The theorem of C1 at the desktop with two frames, where nothing raises, and at the
  desktop whose application slot raises on its child count.
\<close>

theorem get_windows_fails_iff_enumeration_raises_witness:
  "\<not> enumeration_raises two_windows \<and> success (fst (get_windows two_windows 0))
   \<and> enumeration_raises dead_application_slot
   \<and> \<not> success (fst (get_windows dead_application_slot 0))"
proof -
  have a: "\<not> enumeration_raises two_windows" by code_simp
  have b: "enumeration_raises dead_application_slot" by code_simp
  show ?thesis
    using get_windows_fails_iff_enumeration_raises [of two_windows 0]
      get_windows_fails_iff_enumeration_raises [of dead_application_slot 0] a b
    by simp
qed

text \<open>
  C1 as stated fails: the desktop root of this environment is obtained, its one
  application slot raises on \<open>childCount\<close>, and \<open>get_windows\<close> returns
  \<open>success: false\<close> with that message.
\<close>

theorem desktop_obtained_yet_failure_counterexample:
  "\<not> isl (getDesktop dead_application_slot)
   \<and> \<not> success (fst (get_windows dead_application_slot 0))
   \<and> fst (get_windows dead_application_slot 0) = Failure ''no childCount''"
  by (simp add: dead_application_slot_def get_windows_def primary_capture_def)

section \<open>When the listing command is run\<close>

text \<open>
  C2, as amended.  \<open>get_windows\<close>, \<open>find_window_by_title\<close> and
  \<open>find_window_by_role\<close> run the listing command once exactly when the enumeration
  succeeds with no top-level window, and not at all when it raises or finds a window.
  \<open>find_window_by_value\<close> walks the desktop itself and never runs the command.
\<close>

theorem fallback_invoked_iff_primary_empty:
  "snd (get_windows env calls)
     = (if top_level_windows env = Inr [] then Suc calls else calls)
   \<and> snd (find_window_by_title env q calls)
     = (if top_level_windows env = Inr [] then Suc calls else calls)
   \<and> snd (find_window_by_role env q calls)
     = (if top_level_windows env = Inr [] then Suc calls else calls)
   \<and> snd (find_window_by_value env sv calls) = calls"
proof -
  have g: "snd (get_windows env calls)
     = (if top_level_windows env = Inr [] then Suc calls else calls)"
    by (simp add: get_windows_eq split: sum.splits)
  have t: "snd (find_window_by_title env q calls) = snd (get_windows env calls)"
    by (simp add: find_window_by_title_def Let_def split: prod.splits option.splits)
  have r: "snd (find_window_by_role env q calls) = snd (get_windows env calls)"
    by (simp add: find_window_by_role_def Let_def split: prod.splits)
  have v: "snd (find_window_by_value env sv calls) = calls"
    by (simp add: find_window_by_value_def split: sum.splits option.splits)
  show ?thesis using g t r v by simp
qed

text \<open>
  The theorem of C2 at a desktop without applications, at one with two frames and at
  one whose enumeration raises.
\<close>

theorem fallback_invoked_iff_primary_empty_witness:
  "top_level_windows empty_desktop = Inr []
   \<and> snd (get_windows empty_desktop 0) = 1
   \<and> snd (find_window_by_title empty_desktop ''myapp'' 0) = 1
   \<and> snd (find_window_by_role empty_desktop ''window'' 0) = 1
   \<and> snd (find_window_by_value empty_desktop (Some ''myapp'') 0) = 0
   \<and> snd (get_windows two_windows 0) = 0
   \<and> snd (get_windows dead_application_slot 0) = 0"
proof -
  have a: "top_level_windows two_windows \<noteq> Inr []"
    by (simp add: two_windows_top_level)
  have b: "top_level_windows dead_application_slot \<noteq> Inr []" by code_simp
  show ?thesis
    using fallback_invoked_iff_primary_empty [of empty_desktop 0 "''myapp''" "Some ''myapp''"]
      fallback_invoked_iff_primary_empty [of empty_desktop 0 "''window''" "Some ''myapp''"]
      fallback_invoked_iff_primary_empty [of two_windows 0 "''myapp''" "Some ''myapp''"]
      fallback_invoked_iff_primary_empty [of dead_application_slot 0 "''myapp''" "Some ''myapp''"]
      a b
    by (simp add: empty_desktop_top_level)
qed

text \<open>
  C2 as stated fails for \<open>find_window_by_value\<close>: on a desktop without
  applications the primary capture succeeds with no window; \<open>get_windows\<close> then runs
  the listing command and returns the stub of MyApp, while \<open>find_window_by_value\<close>
  leaves the command alone and reports that nothing was found.
\<close>

theorem find_window_by_value_no_fallback_counterexample:
  "primary_capture empty_desktop = Inr []
   \<and> get_windows empty_desktop 0
       = (Windows [WindowDict ''window'' ''MyApp'' [] 0 0 0 0 []], 1)
   \<and> find_window_by_value empty_desktop (Some ''MyApp'') 0
       = (Failure ''No window with value 'MyApp' found'', 0)"
  by code_simp

section \<open>The searches\<close>




text \<open>
  C9.  On the window set that \<open>get_windows\<close> returns, \<open>find_window_by_title\<close>
  returns the first window whose title contains the query, case-insensitively, and
  fails with the message that names the query when there is none.
\<close>

theorem find_window_by_title_first_match:
  assumes "fst (get_windows env calls) = Windows ws"
  shows "fst (find_window_by_title env q calls) =
     (case find (\<lambda>w. contains_ignoring_case q (d_title w)) ws of
        Some w \<Rightarrow> Window w
      | None \<Rightarrow>
          Failure (''No window with title containing '' @ [CHR 0x27] @ q @ [CHR 0x27]
                   @ '' found''))"
  using assms
  by (cases "get_windows env calls")
     (simp add: find_window_by_title_def first_with_title_find split: option.splits)

text \<open>
  The theorem of C9 at the desktop with two frames: \<open>term\<close> finds Terminal, the
  second window; \<open>xyz\<close> finds nothing.
\<close>

theorem find_window_by_title_first_match_witness:
  "fst (get_windows two_windows 0)
     = Windows [WindowDict ''frame'' ''Files'' ''Files'' 0 0 0 0 [],
                WindowDict ''frame'' ''Terminal'' ''Terminal'' 0 0 0 0
                  [WindowDict ''text'' [] ''a Needle'' 0 0 0 0 []]]
   \<and> fst (find_window_by_title two_windows ''term'' 0)
     = Window (WindowDict ''frame'' ''Terminal'' ''Terminal'' 0 0 0 0
                [WindowDict ''text'' [] ''a Needle'' 0 0 0 0 []])
   \<and> fst (find_window_by_title two_windows ''xyz'' 0)
     = Failure ''No window with title containing 'xyz' found''"
proof -
  have t1: "\<not> contains_ignoring_case ''term'' ''Files''"
    unfolding py_in_lower [symmetric] by code_simp
  have t2: "contains_ignoring_case ''term'' ''Terminal''"
    unfolding py_in_lower [symmetric] by code_simp
  have x1: "\<not> contains_ignoring_case ''xyz'' ''Files''"
    unfolding py_in_lower [symmetric] by code_simp
  have x2: "\<not> contains_ignoring_case ''xyz'' ''Terminal''"
    unfolding py_in_lower [symmetric] by code_simp
  show ?thesis
    using find_window_by_title_first_match [OF two_windows_get_windows, of "''term''"]
      find_window_by_title_first_match [OF two_windows_get_windows, of "''xyz''"]
    by (simp add: two_windows_get_windows t1 t2 x1 x2)
qed

text \<open>
  C10.  A tree contains a value when the node matches by its own value or title
  (case-insensitive containment, an empty field matching nothing) or one of its
  children contains it; a node whose value and title are both empty matches no query
  by itself; no tree contains the query \<^verbatim>\<open>None\<close>, and \<open>find_window_by_value\<close> of
  \<^verbatim>\<open>None\<close> never succeeds.
\<close>

theorem value_matching:
  "contains_value el (Some q)
     = (own_match q el \<or> (\<exists>child\<in>set (children el). contains_value child (Some q)))
   \<and> (elem_value el = [] \<and> title el = [] \<longrightarrow> \<not> own_match q el)
   \<and> \<not> contains_value el None
   \<and> \<not> success (fst (find_window_by_value env None calls))"
proof -
  have a: "contains_value el (Some q)
     = (own_match q el \<or> (\<exists>child\<in>set (children el). contains_value child (Some q)))"
    by (cases el) (auto simp: own_match_def py_in_lower contains_value_children_iff)
  have b: "elem_value el = [] \<and> title el = [] \<longrightarrow> \<not> own_match q el"
    by (simp add: own_match_def)
  have c: "\<not> contains_value el None" by (simp add: contains_value_None)
  have d: "\<not> success (fst (find_window_by_value env None calls))"
    using search_desktop_None
    by (auto simp: find_window_by_value_def split: sum.splits option.splits)
  show ?thesis using a b c d by blast
qed

text \<open>
  The theorem of C10 at a panel without value and title and the empty query, with
  the search for \<^verbatim>\<open>None\<close> on the desktop with two frames.
\<close>

theorem value_matching_witness:
  "contains_value (LinuxUIElement 900 terminal_window) (Some ''NEEDLE'')
   \<and> \<not> own_match ''NEEDLE'' (LinuxUIElement 900 terminal_window)
   \<and> \<not> own_match [] (UIElement ''panel'' [] [] 0 0 0 0 [])
   \<and> fst (find_window_by_value two_windows None 0)
       = Failure ''No window with value 'None' found''"
proof -
  have a: "contains_value (LinuxUIElement 900 terminal_window) (Some ''NEEDLE'')" by code_simp
  have f: "fst (find_window_by_value two_windows None 0)
       = Failure ''No window with value 'None' found''" by code_simp
  have t: "\<not> contains_ignoring_case ''NEEDLE'' ''Terminal''"
    unfolding py_in_lower [symmetric] by code_simp
  have e: "LinuxUIElement 900 terminal_window
     = UIElement ''frame'' ''Terminal'' ''Terminal'' 0 0 0 0
         [UIElement ''text'' [] ''a Needle'' 0 0 0 0 []]" by code_simp
  have o: "\<not> own_match ''NEEDLE'' (LinuxUIElement 900 terminal_window)"
    by (simp add: e own_match_def t)
  show ?thesis
    using value_matching [of "UIElement ''panel'' [] [] 0 0 0 0 []" "[]" two_windows 0] a f o
    by simp
qed

section \<open>The listing of the window manager\<close>

declare whitespace_fields.simps [simp del]

lemma skip_field_lstrip: "skip_field s = dropWhile (\<lambda>c. \<not> isspace c) (lstrip s)"
  by (simp add: skip_field_def lstrip_def)

lemma fields_unfold:
  "whitespace_fields s =
     (if lstrip s = [] then []
      else takeWhile (\<lambda>c. \<not> isspace c) (lstrip s) # whitespace_fields (skip_field s))"
  by (subst whitespace_fields.simps) (simp only: Let_def lstrip_def skip_field_def)

lemma split_whitespace_0: "split_whitespace s 0 = (if lstrip s = [] then [] else [lstrip s])"
  by (simp only: split_whitespace.simps Let_def lstrip_def)

lemma split_whitespace_Suc:
  "split_whitespace s (Suc n) =
     (if lstrip s = [] then []
      else takeWhile (\<lambda>c. \<not> isspace c) (lstrip s) # split_whitespace (skip_field s) n)"
  by (simp only: split_whitespace.simps Let_def lstrip_def skip_field_def)

lemma skip_field_blank: "lstrip s = [] \<Longrightarrow> skip_field s = []"
  by (simp only: skip_field_lstrip dropWhile.simps)

lemma lstrip_Nil: "lstrip [] = []"
  by (simp add: lstrip_def)

lemma rest_after_fields_Nil: "rest_after_fields n [] = []"
proof (induction n)
  case 0
  show ?case by simp
next
  case (Suc n)
  have "skip_field [] = []" by (rule skip_field_blank) (rule lstrip_Nil)
  then show ?case using Suc by simp
qed

lemma split_whitespace_eq:
  "split_whitespace s n = take n (whitespace_fields s) @ last_part n s"
proof (induction n arbitrary: s)
  case 0
  show ?case by (simp only: split_whitespace_0 last_part_def rest_after_fields.simps) simp
next
  case (Suc n)
  show ?case
  proof (cases "lstrip s = []")
    case True
    have f: "whitespace_fields s = []" using True by (subst fields_unfold) simp
    have l: "last_part (Suc n) s = []"
      by (simp add: last_part_def skip_field_blank [OF True] rest_after_fields_Nil lstrip_Nil)
    show ?thesis by (simp only: split_whitespace_Suc True f l) simp
  next
    case False
    have f: "whitespace_fields s = takeWhile (\<lambda>c. \<not> isspace c) (lstrip s) # whitespace_fields (skip_field s)"
      using False by (subst fields_unfold) simp
    have l: "last_part (Suc n) s = last_part n (skip_field s)"
      by (simp add: last_part_def)
    have "split_whitespace s (Suc n)
        = takeWhile (\<lambda>c. \<not> isspace c) (lstrip s) # split_whitespace (skip_field s) n"
      using False by (simp only: split_whitespace_Suc if_False)
    also have "\<dots> = takeWhile (\<lambda>c. \<not> isspace c) (lstrip s)
        # (take n (whitespace_fields (skip_field s)) @ last_part n (skip_field s))"
      by (simp only: Suc.IH)
    also have "\<dots> = take (Suc n) (whitespace_fields s) @ last_part (Suc n) s"
      by (simp only: f l take_Suc_Cons append_Cons)
    finally show ?thesis .
  qed
qed

lemma more_fields_iff:
  "n < length (whitespace_fields s) \<longleftrightarrow> lstrip (rest_after_fields n s) \<noteq> []"
proof (induction n arbitrary: s)
  case 0
  show ?case by (subst fields_unfold) simp
next
  case (Suc n)
  show ?case
  proof (cases "lstrip s = []")
    case True
    have f: "whitespace_fields s = []" using True by (subst fields_unfold) simp
    show ?thesis
      by (simp add: f skip_field_blank [OF True] rest_after_fields_Nil lstrip_Nil)
  next
    case False
    have f: "whitespace_fields s = takeWhile (\<lambda>c. \<not> isspace c) (lstrip s) # whitespace_fields (skip_field s)"
      using False by (subst fields_unfold) simp
    show ?thesis by (simp add: f Suc.IH)
  qed
qed

lemma length_split_whitespace:
  "length (split_whitespace s n) = min (Suc n) (length (whitespace_fields s))"
  using more_fields_iff [of n s]
  by (auto simp: split_whitespace_eq last_part_def)

lemma strip_lstrip: "strip (lstrip s) = strip s"
  by (simp add: strip_def lstrip_def)

lemma split_whitespace_3_parts:
  assumes "4 \<le> length (whitespace_fields s)"
  shows "\<exists>a b c. split_whitespace s 3 = [a, b, c, lstrip (rest_after_fields 3 s)]"
proof -
  from assms have "3 < length (whitespace_fields s)" by simp
  then have ne: "lstrip (rest_after_fields 3 s) \<noteq> []"
    by (simp add: more_fields_iff)
  from assms obtain a r1 where f1: "whitespace_fields s = a # r1" by (cases "whitespace_fields s") auto
  from assms f1 obtain b r2 where f2: "r1 = b # r2" by (cases r1) auto
  from assms f1 f2 obtain c r3 where f3: "r2 = c # r3" by (cases r2) auto
  have "take 3 (whitespace_fields s) = [a, b, c]" by (simp add: f1 f2 f3 numeral_3_eq_3)
  then have "split_whitespace s 3 = [a, b, c, lstrip (rest_after_fields 3 s)]"
    using ne by (simp only: split_whitespace_eq last_part_def if_False) simp
  then show ?thesis by blast
qed

lemma parse_wmctrl_lines_eq:
  "parse_wmctrl_lines lines windows =
     windows @ map window_stub (filter (\<lambda>line. 4 \<le> length (whitespace_fields line)) lines)"
proof (induction lines arbitrary: windows)
  case Nil
  show ?case by simp
next
  case (Cons line lines)
  show ?case
  proof (cases "4 \<le> length (whitespace_fields line)")
    case True
    then obtain a b c where
      p: "split_whitespace line 3 = [a, b, c, lstrip (rest_after_fields 3 line)]"
      using split_whitespace_3_parts by blast
    show ?thesis
      by (simp add: p True Cons.IH window_stub_def strip_lstrip del: split_whitespace.simps)
  next
    case False
    then have "\<not> 4 \<le> length (split_whitespace line 3)"
      by (simp add: length_split_whitespace del: split_whitespace.simps)
    then show ?thesis using False by (simp add: Cons.IH del: split_whitespace.simps)
  qed
qed

lemma listed_desktop_top_level: "top_level_windows listed_desktop = Inr []"
  by code_simp

lemma listed_desktop_wmctrl:
  "wmctrl listed_desktop = Inr (''0x01  0 host  My App  '' @ [CHR 0x0A] @ ''0x02 0 host''
      @ [CHR 0x0A] @ ''0x03 -1 host Term'' @ [CHR 0x0A])"
  by (simp add: listed_desktop_def)

lemma no_wmctrl_desktop_top_level: "top_level_windows no_wmctrl_desktop = Inr []"
  by code_simp

lemma unlisted_desktop_top_level: "top_level_windows unlisted_desktop = Inr []"
  by code_simp

text \<open>
  C8.  When the enumeration finds no window and the listing command replies, the
  windows of \<open>get_windows\<close> are the stubs of the lines that have at least four
  whitespace-delimited fields, in order: role \<open>window\<close>, empty value, zero geometry,
  no children, and as title what is left of the line after its first three fields,
  stripped.  A line with fewer than four fields gives no stub.
\<close>

theorem fallback_stubs:
  assumes "top_level_windows env = Inr []" and "wmctrl env = Inr wm_output"
  shows "fst (get_windows env calls) =
     Windows (map (\<lambda>line. WindowDict ''window'' (strip (rest_after_fields 3 line)) [] 0 0 0 0 [])
               (filter (\<lambda>line. 4 \<le> length (whitespace_fields line)) (splitlines wm_output)))"
  using assms
  by (simp add: get_windows_eq wmctrl_fallback_def parse_wmctrl_lines_eq window_stub_def)

text \<open>
  The theorem of C8 at a listing of three lines, the second of which has three
  fields only.
\<close>

theorem fallback_stubs_witness:
  "top_level_windows listed_desktop = Inr []
   \<and> fst (get_windows listed_desktop 0)
     = Windows [WindowDict ''window'' ''My App'' [] 0 0 0 0 [],
                WindowDict ''window'' ''Term'' [] 0 0 0 0 []]"
proof -
  have r: "map (\<lambda>line. WindowDict ''window'' (strip (rest_after_fields 3 line)) [] 0 0 0 0 [])
        (filter (\<lambda>line. 4 \<le> length (whitespace_fields line))
           (splitlines (''0x01  0 host  My App  '' @ [CHR 0x0A] @ ''0x02 0 host''
              @ [CHR 0x0A] @ ''0x03 -1 host Term'' @ [CHR 0x0A])))
     = [WindowDict ''window'' ''My App'' [] 0 0 0 0 [],
        WindowDict ''window'' ''Term'' [] 0 0 0 0 []]"
    by code_simp
  show ?thesis
    using fallback_stubs [OF listed_desktop_top_level listed_desktop_wmctrl, of 0, unfolded r]
    by (simp add: listed_desktop_top_level)
qed

text \<open>
  C3.  When the enumeration succeeds with no top-level window and the listing
  command raises (it is missing, or exits with failure) or none of its lines has four
  fields, \<open>get_windows\<close> returns \<open>success: true\<close> with the empty list.
\<close>

theorem fallback_exhausted_still_success:
  assumes "top_level_windows env = Inr []"
    and "case wmctrl env of
           Inl e \<Rightarrow> True
         | Inr wm_output \<Rightarrow>
             \<forall>line\<in>set (splitlines wm_output). length (whitespace_fields line) < 4"
  shows "fst (get_windows env calls) = Windows []"
proof (cases "wmctrl env")
  case (Inl e)
  with assms(1) show ?thesis by (simp add: get_windows_eq wmctrl_fallback_def)
next
  case (Inr wm_output)
  with assms(2) have "filter (\<lambda>line. 4 \<le> length (whitespace_fields line)) (splitlines wm_output) = []"
    by (auto simp: filter_empty_conv)
  with assms(1) Inr show ?thesis
    by (simp add: get_windows_eq wmctrl_fallback_def parse_wmctrl_lines_eq)
qed

text \<open>
  The theorem of C3 at a desktop without applications, once with the command missing
  and once with a listing that has no usable line.
\<close>

theorem fallback_exhausted_still_success_witness:
  "top_level_windows no_wmctrl_desktop = Inr []
   \<and> wmctrl no_wmctrl_desktop = Inl (Exception ''No such file or directory: wmctrl'')
   \<and> fst (get_windows no_wmctrl_desktop 0) = Windows []
   \<and> top_level_windows unlisted_desktop = Inr []
   \<and> fst (get_windows unlisted_desktop 0) = Windows []"
proof -
  have w: "wmctrl no_wmctrl_desktop = Inl (Exception ''No such file or directory: wmctrl'')"
    by (simp add: no_wmctrl_desktop_def)
  have a: "case wmctrl no_wmctrl_desktop of
             Inl e \<Rightarrow> True
           | Inr wm_output \<Rightarrow>
               \<forall>line\<in>set (splitlines wm_output). length (whitespace_fields line) < 4"
    by (simp add: w)
  have b: "case wmctrl unlisted_desktop of
             Inl e \<Rightarrow> True
           | Inr wm_output \<Rightarrow>
               \<forall>line\<in>set (splitlines wm_output). length (whitespace_fields line) < 4"
    by code_simp
  show ?thesis
    using fallback_exhausted_still_success [OF no_wmctrl_desktop_top_level a, of 0]
      fallback_exhausted_still_success [OF unlisted_desktop_top_level b, of 0]
    by (simp add: no_wmctrl_desktop_top_level unlisted_desktop_top_level w)
qed

end
